theory Spec2Isabelle
  imports Complex_Main "HOL-Library.Word"
begin

section \<open>JavaScript values\<close>

text \<open>
  A JavaScript string is a sequence of UTF-16 code units. Numbers that hold times
  (\<open>nextStartTime\<close>, \<open>currentTime\<close>, a buffer's \<open>duration\<close>) are modelled as reals:
  the properties below use only their order, \<open>max\<close> and \<open>+\<close>.
\<close>

type_synonym js_string = "16 word list"

definition str :: "string \<Rightarrow> js_string" where
  "str cs = map of_char cs"

text \<open>\<open>String.prototype.trim\<close> strips WhiteSpace and LineTerminator code points.\<close>

definition isWhiteSpace :: "16 word \<Rightarrow> bool" where
  "isWhiteSpace c =
     (c \<in> set [0x09, 0x0A, 0x0B, 0x0C, 0x0D, 0x20, 0xA0, 0x1680, 0x2028, 0x2029,
                0x202F, 0x205F, 0x3000, 0xFEFF]
      \<or> (0x2000 \<le> c \<and> c \<le> 0x200A))"

definition trim :: "js_string \<Rightarrow> js_string" where
  "trim s = rev (dropWhile isWhiteSpace (rev (dropWhile isWhiteSpace s)))"

text \<open>Truthiness of a string that may be \<open>undefined\<close>, and of an optional flag.\<close>

definition truthy_string :: "js_string option \<Rightarrow> bool" where
  "truthy_string v = (case v of None \<Rightarrow> False | Some s \<Rightarrow> s \<noteq> [])"

definition truthy_flag :: "bool option \<Rightarrow> bool" where
  "truthy_flag v = (v = Some True)"

text \<open>\<open>acc += text\<close> where \<open>text\<close> may be \<open>undefined\<close>: the string \<open>"undefined"\<close> is appended.\<close>

definition toString_opt :: "js_string option \<Rightarrow> js_string" where
  "toString_opt v = (case v of None \<Rightarrow> str ''undefined'' | Some s \<Rightarrow> s)"

text \<open>Decimal rendering of a natural number, as a template literal prints it.\<close>

function decimal :: "nat \<Rightarrow> js_string" where
  "decimal n =
     (if n < 10 then [of_nat (48 + n)] else decimal (n div 10) @ [of_nat (48 + n mod 10)])"
  by pat_completeness auto
termination
  by (relation "measure id") auto

declare decimal.simps [simp del]

section \<open>The inbound message (\<open>LiveServerMessage\<close>)\<close>

text \<open>Only the fields the handler reads. Every field is optional, as in the SDK's types.\<close>

record blob =
  data :: "js_string option"

record part =
  inlineData :: "blob option"

record content =
  parts :: "part list option"

record transcription =
  text_tr :: "js_string option"

record server_content =
  modelTurn :: "content option"
  outputTranscription :: "transcription option"
  inputTranscription :: "transcription option"
  turnComplete :: "bool option"
  interrupted :: "bool option"

record live_server_message =
  serverContent :: "server_content option"

text \<open>\<open>message.serverContent?.modelTurn?.parts?.[0]?.inlineData?.data\<close>\<close>

definition base64Audio :: "live_server_message \<Rightarrow> js_string option" where
  "base64Audio m =
     Option.bind (serverContent m) (\<lambda>sc.
     Option.bind (modelTurn sc) (\<lambda>mt.
     Option.bind (parts mt) (\<lambda>ps.
     Option.bind (case ps of [] \<Rightarrow> None | p # _ \<Rightarrow> Some p) (\<lambda>p.
     Option.bind (inlineData p) data))))"

text \<open>\<open>message.serverContent?.f\<close>\<close>

definition sc_field :: "(server_content \<Rightarrow> 'a option) \<Rightarrow> live_server_message \<Rightarrow> 'a option" where
  "sc_field f m = Option.bind (serverContent m) f"

section \<open>Module state of \<open>services/gemini.ts\<close>\<close>

text \<open>
  The module-level variables, and the variables of \<open>startLiveSession\<close> that its callbacks
  close over. A handle is \<open>True\<close> when the variable holds an object and \<open>False\<close> when it
  is \<open>null\<close>. \<open>session\<close> records whether the object has a \<open>close\<close> function.
\<close>

record session_obj =
  has_close :: bool

record gemini_state =
  audioContext :: bool
  inputAudioContext :: bool
  mediaStream :: bool
  processor :: bool
  sourceInput :: bool
  nextStartTime :: real
  session :: "session_obj option"
  currentInputTranscription :: js_string
  currentOutputTranscription :: js_string

text \<open>Calls the module makes to the outside: the caller's callbacks and the platform.\<close>

datatype effect =
    OnAudioData real
  | SourceStart real real
  | OnTranscriptUpdate js_string bool bool
  | ProcessorDisconnect
  | SourceInputDisconnect
  | TracksStop
  | SessionClose
  | AudioContextClose
  | InputAudioContextClose

text \<open>
  What one run of \<open>onmessage\<close> reads from the outside: \<open>audioContext.currentTime\<close> at the
  scheduling line and at the interruption line, the duration of the buffer that
  \<open>decodeAudioData\<close> (of \<open>utils/audio\<close>) resolves to, or \<open>None\<close> when it rejects, and the
  value of the k-th \<open>new Date()\<close> taken by the transcript callback.
\<close>

record readings =
  currentTime_schedule :: real
  decodeAudioData :: "real option"
  currentTime_interrupt :: real
  newDate :: "nat \<Rightarrow> nat"

datatype completion = Returned | Threw

subsection \<open>\<open>startLiveSession\<close>: the state it sets up\<close>

text \<open>
  Lines 48-62 with a granted microphone: both contexts are created, \<open>nextStartTime\<close> is
  seeded with the playback clock, and the two transcription buffers start empty.
\<close>

definition startLiveSession :: "real \<Rightarrow> gemini_state \<Rightarrow> gemini_state" where
  "startLiveSession currentTime s =
     s\<lparr>inputAudioContext := True, audioContext := True, nextStartTime := currentTime,
       mediaStream := True, currentInputTranscription := [],
       currentOutputTranscription := []\<rparr>"

text \<open>A freshly loaded module: every handle \<open>null\<close>, \<open>nextStartTime = 0\<close>.\<close>

definition module_init :: gemini_state where
  "module_init =
     \<lparr>audioContext = False, inputAudioContext = False, mediaStream = False,
      processor = False, sourceInput = False, nextStartTime = 0, session = None,
      currentInputTranscription = [], currentOutputTranscription = []\<rparr>"

text \<open>\<open>onopen\<close>: the capture graph is built when both inputs exist.\<close>

definition onopen :: "gemini_state \<Rightarrow> gemini_state" where
  "onopen s =
     (if \<not> inputAudioContext s \<or> \<not> mediaStream s then s
      else s\<lparr>sourceInput := True, processor := True\<rparr>)"

subsection \<open>\<open>onmessage\<close>\<close>

text \<open>Handle Audio Output (lines 96-116). A rejected decode ends the handler there.\<close>

definition handleAudioOutput ::
  "readings \<Rightarrow> live_server_message \<Rightarrow> gemini_state \<Rightarrow> completion \<times> gemini_state \<times> effect list" where
  "handleAudioOutput r m s =
     (if truthy_string (base64Audio m) \<and> audioContext s then
        let s1 = s\<lparr>nextStartTime := max (nextStartTime s) (currentTime_schedule r)\<rparr> in
        (case decodeAudioData r of
           None \<Rightarrow> (Threw, s1, [OnAudioData 0.5])
         | Some duration \<Rightarrow>
             (Returned, s1\<lparr>nextStartTime := nextStartTime s1 + duration\<rparr>,
              [OnAudioData 0.5, SourceStart (nextStartTime s1) duration]))
      else (Returned, s, []))"

text \<open>Handle Transcriptions (lines 118-127): output first, input only otherwise.\<close>

definition handleTranscriptions ::
  "live_server_message \<Rightarrow> gemini_state \<Rightarrow> gemini_state \<times> effect list" where
  "handleTranscriptions m s =
     (case sc_field outputTranscription m of
        Some t \<Rightarrow>
          let acc = currentOutputTranscription s @ toString_opt (text_tr t) in
          (s\<lparr>currentOutputTranscription := acc\<rparr>, [OnTranscriptUpdate acc False False])
      | None \<Rightarrow>
          (case sc_field inputTranscription m of
             Some t \<Rightarrow>
               let acc = currentInputTranscription s @ toString_opt (text_tr t) in
               (s\<lparr>currentInputTranscription := acc\<rparr>, [OnTranscriptUpdate acc True False])
           | None \<Rightarrow> (s, [])))"

text \<open>Finalize turns (lines 129-139): the user's buffer first, then the assistant's.\<close>

definition finalizeInput :: "gemini_state \<Rightarrow> gemini_state \<times> effect list" where
  "finalizeInput s =
     (if trim (currentInputTranscription s) \<noteq> [] then
        (s\<lparr>currentInputTranscription := []\<rparr>,
         [OnTranscriptUpdate (currentInputTranscription s) True True])
      else (s, []))"

definition finalizeOutput :: "gemini_state \<Rightarrow> gemini_state \<times> effect list" where
  "finalizeOutput s =
     (if trim (currentOutputTranscription s) \<noteq> [] then
        (s\<lparr>currentOutputTranscription := []\<rparr>,
         [OnTranscriptUpdate (currentOutputTranscription s) False True])
      else (s, []))"

definition finalizeTurns ::
  "live_server_message \<Rightarrow> gemini_state \<Rightarrow> gemini_state \<times> effect list" where
  "finalizeTurns m s =
     (if truthy_flag (sc_field turnComplete m) then
        let (s1, fx1) = finalizeInput s;
            (s2, fx2) = finalizeOutput s1
        in (s2, fx1 @ fx2)
      else (s, []))"

text \<open>Handle Interruption (lines 141-147).\<close>

definition handleInterruption ::
  "readings \<Rightarrow> live_server_message \<Rightarrow> gemini_state \<Rightarrow> gemini_state \<times> effect list" where
  "handleInterruption r m s =
     (if truthy_flag (sc_field interrupted m) \<and> audioContext s then
        (s\<lparr>nextStartTime := currentTime_interrupt r, currentOutputTranscription := []\<rparr>, [])
      else (s, []))"

definition onmessage ::
  "readings \<Rightarrow> live_server_message \<Rightarrow> gemini_state \<Rightarrow> completion \<times> gemini_state \<times> effect list" where
  "onmessage r m s =
     (case handleAudioOutput r m s of
        (Threw, s1, fx1) \<Rightarrow> (Threw, s1, fx1)
      | (Returned, s1, fx1) \<Rightarrow>
          let (s2, fx2) = handleTranscriptions m s1;
              (s3, fx3) = finalizeTurns m s2;
              (s4, fx4) = handleInterruption r m s3
          in (Returned, s4, fx1 @ fx2 @ fx3 @ fx4))"

subsection \<open>\<open>stopLiveSession\<close>\<close>

definition stopLiveSession :: "gemini_state \<Rightarrow> gemini_state \<times> effect list" where
  "stopLiveSession s0 =
     (let (s1, fx1) =
            (if processor s0 \<and> inputAudioContext s0 then
               (s0\<lparr>processor := False, sourceInput := False\<rparr>,
                ProcessorDisconnect # (if sourceInput s0 then [SourceInputDisconnect] else []))
             else (s0, []));
          (s2, fx2) =
            (if mediaStream s1 then (s1\<lparr>mediaStream := False\<rparr>, [TracksStop]) else (s1, []));
          (s3, fx3) =
            (case session s2 of
               Some sess \<Rightarrow> (s2\<lparr>session := None\<rparr>, if has_close sess then [SessionClose] else [])
             | None \<Rightarrow> (s2, []));
          (s4, fx4) =
            (if audioContext s3 then (s3\<lparr>audioContext := False\<rparr>, [AudioContextClose])
             else (s3, []));
          (s5, fx5) =
            (if inputAudioContext s4 then
               (s4\<lparr>inputAudioContext := False\<rparr>, [InputAudioContextClose])
             else (s4, []))
      in (s5, fx1 @ fx2 @ fx3 @ fx4 @ fx5))"

section \<open>The transcript list of \<open>App\<close>\<close>

datatype role = User | Assistant

record TranscriptItem =
  role :: role
  text_item :: js_string
  timestamp :: nat
  isPartial :: "bool option"

definition role_of :: "bool \<Rightarrow> role" where
  "role_of isUser = (if isUser then User else Assistant)"

text \<open>\<open>last && last.isPartial && last.role === (isUser ? 'user' : 'assistant')\<close>\<close>

definition last_matches :: "TranscriptItem list \<Rightarrow> bool \<Rightarrow> bool" where
  "last_matches prev isUser =
     (prev \<noteq> [] \<and> isPartial (last prev) = Some True \<and> role (last prev) = role_of isUser)"

text \<open>
  The updater that the transcript callback of \<open>handleStartCall\<close> passes to
  \<open>setTranscripts\<close>; \<open>now\<close> is its \<open>new Date()\<close>.
\<close>

definition transcriptCallback ::
  "nat \<Rightarrow> js_string \<Rightarrow> bool \<Rightarrow> bool \<Rightarrow> TranscriptItem list \<Rightarrow> TranscriptItem list" where
  "transcriptCallback now txt isUser isFinal prev =
     (if isFinal then
        (if last_matches prev isUser then
           prev[length prev - 1 :=
             \<lparr>role = role_of isUser, text_item = txt, timestamp = now, isPartial = Some False\<rparr>]
         else
           prev @ [\<lparr>role = role_of isUser, text_item = txt, timestamp = now,
                    isPartial = Some False\<rparr>])
      else
        (if last_matches prev isUser then
           prev[length prev - 1 := (last prev)\<lparr>text_item := txt, timestamp := now\<rparr>]
         else
           prev @ [\<lparr>role = role_of isUser, text_item = txt, timestamp = now,
                    isPartial = Some True\<rparr>]))"

text \<open>
  The updaters queued by one handler run are applied in call order; the k-th of them
  reads the k-th date.
\<close>

fun setTranscripts ::
  "(nat \<Rightarrow> nat) \<Rightarrow> nat \<Rightarrow> effect list \<Rightarrow> TranscriptItem list \<Rightarrow> TranscriptItem list" where
  "setTranscripts nd k [] prev = prev"
| "setTranscripts nd k (OnTranscriptUpdate t u f # fx) prev =
     setTranscripts nd (Suc k) fx (transcriptCallback (nd k) t u f prev)"
| "setTranscripts nd k (_ # fx) prev = setTranscripts nd k fx prev"

section \<open>The running call: module state, transcript list and the calls made so far\<close>

record world =
  gemini :: gemini_state
  transcripts :: "TranscriptItem list"
  trace :: "effect list"

text \<open>\<open>handleStartCall\<close>: \<open>setTranscripts([])\<close>, then \<open>startLiveSession\<close>.\<close>

definition call_start :: "real \<Rightarrow> gemini_state \<Rightarrow> world" where
  "call_start currentTime s =
     \<lparr>gemini = startLiveSession currentTime s, transcripts = [], trace = []\<rparr>"

definition receive :: "readings \<Rightarrow> live_server_message \<Rightarrow> world \<Rightarrow> world" where
  "receive r m w =
     (case onmessage r m (gemini w) of
        (c, s, fx) \<Rightarrow>
          \<lparr>gemini = s, transcripts = setTranscripts (newDate r) 0 fx (transcripts w),
           trace = trace w @ fx\<rparr>)"

fun run :: "(readings \<times> live_server_message) list \<Rightarrow> world \<Rightarrow> world" where
  "run [] w = w"
| "run ((r, m) # ms) w = run ms (receive r m w)"

text \<open>The playback schedule: every \<open>source.start(when)\<close> with its buffer's duration.\<close>

fun scheduled :: "effect list \<Rightarrow> (real \<times> real) list" where
  "scheduled [] = []"
| "scheduled (SourceStart t d # fx) = (t, d) # scheduled fx"
| "scheduled (_ # fx) = scheduled fx"

section \<open>\<open>services/twilio.ts\<close>\<close>

record TwilioConfig =
  accountSid :: js_string
  authToken :: js_string
  myPhoneNumber :: js_string
  verifiedCallerId :: "js_string option"

text \<open>A thrown value: its \<open>name\<close> and \<open>message\<close>. \<open>new Error(msg)\<close> has the name \<open>"Error"\<close>.\<close>

record js_error =
  error_name :: js_string
  error_message :: js_string

definition new_Error :: "js_string \<Rightarrow> js_error" where
  "new_Error msg = \<lparr>error_name = str ''Error'', error_message = msg\<rparr>"

typedecl json_value

text \<open>
  The request handed to \<open>fetch\<close>, and what the handler reads of the response:
  \<open>ok\<close>, \<open>status\<close>, \<open>statusText\<close>, and the outcomes of \<open>text()\<close> and \<open>json()\<close>.
\<close>

record request =
  url :: js_string
  http_method :: js_string
  headers :: "(js_string \<times> js_string) list"
  body :: "(js_string \<times> js_string) list"

record response =
  ok :: bool
  status :: nat
  statusText :: js_string
  text_result :: "js_error + js_string"
  json_result :: "js_error + json_value"

definition twiml :: "js_string \<Rightarrow> js_string" where
  "twiml userRealPhoneNumber =
     [0x0A] @ str ''    <Response>'' @ [0x0A] @
     str ''      <Say>Please wait while we connect you to the assistant.</Say>'' @ [0x0A] @
     str ''      <Dial>'' @ userRealPhoneNumber @ str ''</Dial>'' @ [0x0A] @
     str ''    </Response>'' @ [0x0A] @ str ''  ''"

text \<open>The body of the \<open>try\<close> block, from the outcome of \<open>fetch\<close> on.\<close>

definition try_block :: "js_error + response \<Rightarrow> js_error + json_value" where
  "try_block fetched =
     (case fetched of
        Inl e \<Rightarrow> Inl e
      | Inr resp \<Rightarrow>
          if \<not> ok resp then
            (case text_result resp of
               Inl e \<Rightarrow> Inl e
             | Inr errorText \<Rightarrow>
                 Inl (new_Error (str ''Twilio Error: '' @ decimal (status resp) @ str '' '' @
                        statusText resp @ str '' - '' @ errorText)))
          else json_result resp)"

definition catch_block :: "js_error \<Rightarrow> js_error" where
  "catch_block e =
     (if error_name e = str ''TypeError'' \<and> error_message e = str ''Failed to fetch'' then
        new_Error (str (''CORS Error: Browser blocked the Twilio API request. '' @
                        ''Please use a CORS proxy or run this via a backend.''))
      else e)"

text \<open>
  \<open>makeTwilioCall\<close>. The platform's \<open>btoa\<close> (which throws on a code unit above 255) and
  \<open>fetch\<close> are parameters. The result is the value the returned promise settles to
  (\<open>Inl\<close>: rejected with that error) and the requests that were sent.
\<close>

definition makeTwilioCall ::
  "(js_string \<Rightarrow> js_error + js_string) \<Rightarrow> (request \<Rightarrow> js_error + response) \<Rightarrow>
   TwilioConfig \<Rightarrow> js_string \<Rightarrow> js_string \<Rightarrow> (js_error + json_value) \<times> request list" where
  "makeTwilioCall btoa fetch config customerNumber userRealPhoneNumber =
     (if accountSid config = [] \<or> authToken config = [] \<or> myPhoneNumber config = [] then
        (Inl (new_Error (str ''Missing Twilio credentials'')), [])
      else
        let endpoint = str ''https://api.twilio.com/2010-04-01/Accounts/'' @ accountSid config @
                       str ''/Calls.json'';
            formData = [(str ''To'', customerNumber), (str ''From'', myPhoneNumber config),
                        (str ''Twiml'', twiml userRealPhoneNumber)]
        in
        (case btoa (accountSid config @ str '':'' @ authToken config) of
           Inl e \<Rightarrow> (Inl e, [])
         | Inr auth \<Rightarrow>
             let req = \<lparr>url = endpoint, http_method = str ''POST'',
                        headers = [(str ''Authorization'', str ''Basic '' @ auth),
                                   (str ''Content-Type'',
                                    str ''application/x-www-form-urlencoded'')],
                        body = formData\<rparr>
             in (case try_block (fetch req) of
                   Inl e \<Rightarrow> (Inl (catch_block e), [req])
                 | Inr v \<Rightarrow> (Inr v, [req]))))"

section \<open>The handler seen as a dispatcher of events\<close>

text \<open>
  The specification describes \<open>onmessage\<close> as a dispatcher that maps a message to a list of
  events, each handled on its own. \<open>dispatch\<close> lists the events whose guard in the source
  holds, in the order of the source's blocks; \<open>handle_event\<close> is the body of each block.
\<close>

datatype server_event =
    AudioChunk js_string
  | TranscriptDelta role js_string
  | TurnComplete
  | Interrupted

definition audio_events :: "gemini_state \<Rightarrow> live_server_message \<Rightarrow> server_event list" where
  "audio_events s m =
     (case base64Audio m of
        Some a \<Rightarrow> if a \<noteq> [] \<and> audioContext s then [AudioChunk a] else []
      | None \<Rightarrow> [])"

definition transcript_events :: "live_server_message \<Rightarrow> server_event list" where
  "transcript_events m =
     (case sc_field outputTranscription m of
        Some t \<Rightarrow> [TranscriptDelta Assistant (toString_opt (text_tr t))]
      | None \<Rightarrow>
          (case sc_field inputTranscription m of
             Some t \<Rightarrow> [TranscriptDelta User (toString_opt (text_tr t))]
           | None \<Rightarrow> []))"

definition turn_events :: "live_server_message \<Rightarrow> server_event list" where
  "turn_events m = (if truthy_flag (sc_field turnComplete m) then [TurnComplete] else [])"

definition interrupt_events :: "gemini_state \<Rightarrow> live_server_message \<Rightarrow> server_event list" where
  "interrupt_events s m =
     (if truthy_flag (sc_field interrupted m) \<and> audioContext s then [Interrupted] else [])"

definition dispatch :: "gemini_state \<Rightarrow> live_server_message \<Rightarrow> server_event list" where
  "dispatch s m =
     audio_events s m @ transcript_events m @ turn_events m @ interrupt_events s m"

fun handle_event ::
  "readings \<Rightarrow> server_event \<Rightarrow> gemini_state \<Rightarrow> completion \<times> gemini_state \<times> effect list" where
  "handle_event r (AudioChunk a) s =
     (let s1 = s\<lparr>nextStartTime := max (nextStartTime s) (currentTime_schedule r)\<rparr> in
      case decodeAudioData r of
        None \<Rightarrow> (Threw, s1, [OnAudioData 0.5])
      | Some duration \<Rightarrow>
          (Returned, s1\<lparr>nextStartTime := nextStartTime s1 + duration\<rparr>,
           [OnAudioData 0.5, SourceStart (nextStartTime s1) duration]))"
| "handle_event r (TranscriptDelta Assistant t) s =
     (let acc = currentOutputTranscription s @ t in
      (Returned, s\<lparr>currentOutputTranscription := acc\<rparr>, [OnTranscriptUpdate acc False False]))"
| "handle_event r (TranscriptDelta User t) s =
     (let acc = currentInputTranscription s @ t in
      (Returned, s\<lparr>currentInputTranscription := acc\<rparr>, [OnTranscriptUpdate acc True False]))"
| "handle_event r TurnComplete s =
     (let (s1, fx1) = finalizeInput s;
          (s2, fx2) = finalizeOutput s1
      in (Returned, s2, fx1 @ fx2))"
| "handle_event r Interrupted s =
     (Returned, s\<lparr>nextStartTime := currentTime_interrupt r, currentOutputTranscription := []\<rparr>, [])"

text \<open>Events are handled in order; a handler that throws ends the pass.\<close>

fun handle_events ::
  "readings \<Rightarrow> server_event list \<Rightarrow> gemini_state \<Rightarrow> completion \<times> gemini_state \<times> effect list" where
  "handle_events r [] s = (Returned, s, [])"
| "handle_events r (ev # evs) s =
     (case handle_event r ev s of
        (Threw, s1, fx1) \<Rightarrow> (Threw, s1, fx1)
      | (Returned, s1, fx1) \<Rightarrow>
          (case handle_events r evs s1 of (c, s2, fx2) \<Rightarrow> (c, s2, fx1 @ fx2)))"

text \<open>Every event of the list handled in order, whatever each handler's completion.\<close>

fun handle_all ::
  "readings \<Rightarrow> server_event list \<Rightarrow> gemini_state \<Rightarrow> gemini_state \<times> effect list" where
  "handle_all r [] s = (s, [])"
| "handle_all r (ev # evs) s =
     (case handle_event r ev s of
        (c, s1, fx1) \<Rightarrow> (case handle_all r evs s1 of (s2, fx2) \<Rightarrow> (s2, fx1 @ fx2)))"

subsection \<open>The dispatch rule in the specification's words\<close>

text \<open>
  "Audio payload present": some part of the model turn carries inline data; the payload
  is that of the first such part. "Output-transcription text present" and
  "input-transcription text present": the transcription is there and has a text.
  A marker is present when it is set. Every present field raises its event, in the order
  audio, output transcription, input transcription, turn complete, interrupted.
\<close>

definition spec_audio_payload :: "live_server_message \<Rightarrow> js_string option" where
  "spec_audio_payload m =
     (case serverContent m of
        None \<Rightarrow> None
      | Some sc \<Rightarrow>
          (case modelTurn sc of
             None \<Rightarrow> None
           | Some mt \<Rightarrow>
               (case parts mt of
                  None \<Rightarrow> None
                | Some ps \<Rightarrow>
                    (case List.map_filter (\<lambda>p. Option.bind (inlineData p) data) ps of
                       [] \<Rightarrow> None
                     | a # _ \<Rightarrow> Some a))))"

definition spec_text :: "(server_content \<Rightarrow> transcription option) \<Rightarrow> live_server_message \<Rightarrow> js_string option" where
  "spec_text f m = Option.bind (sc_field f m) text_tr"

definition spec_dispatch :: "live_server_message \<Rightarrow> server_event list" where
  "spec_dispatch m =
     (case spec_audio_payload m of Some a \<Rightarrow> [AudioChunk a] | None \<Rightarrow> []) @
     (case spec_text outputTranscription m of
        Some t \<Rightarrow> [TranscriptDelta Assistant t] | None \<Rightarrow> []) @
     (case spec_text inputTranscription m of
        Some t \<Rightarrow> [TranscriptDelta User t] | None \<Rightarrow> []) @
     (if truthy_flag (sc_field turnComplete m) then [TurnComplete] else []) @
     (if truthy_flag (sc_field interrupted m) then [Interrupted] else [])"

section \<open>Messages that carry a single field\<close>

definition no_content :: server_content where
  "no_content =
     \<lparr>modelTurn = None, outputTranscription = None, inputTranscription = None,
      turnComplete = None, interrupted = None\<rparr>"

definition audio_msg :: "js_string \<Rightarrow> live_server_message" where
  "audio_msg a =
     \<lparr>serverContent = Some (no_content
        \<lparr>modelTurn := Some \<lparr>parts = Some [\<lparr>inlineData = Some \<lparr>data = Some a\<rparr>\<rparr>]\<rparr>\<rparr>)\<rparr>"

definition output_msg :: "js_string \<Rightarrow> live_server_message" where
  "output_msg t =
     \<lparr>serverContent = Some (no_content\<lparr>outputTranscription := Some \<lparr>text_tr = Some t\<rparr>\<rparr>)\<rparr>"

definition input_msg :: "js_string \<Rightarrow> live_server_message" where
  "input_msg t =
     \<lparr>serverContent = Some (no_content\<lparr>inputTranscription := Some \<lparr>text_tr = Some t\<rparr>\<rparr>)\<rparr>"

definition turnComplete_msg :: live_server_message where
  "turnComplete_msg = \<lparr>serverContent = Some (no_content\<lparr>turnComplete := Some True\<rparr>)\<rparr>"

definition interrupted_msg :: live_server_message where
  "interrupted_msg = \<lparr>serverContent = Some (no_content\<lparr>interrupted := Some True\<rparr>)\<rparr>"

text \<open>A message with both transcriptions.\<close>

definition both_msg :: "js_string \<Rightarrow> js_string \<Rightarrow> live_server_message" where
  "both_msg out inp =
     \<lparr>serverContent = Some (no_content
        \<lparr>outputTranscription := Some \<lparr>text_tr = Some out\<rparr>,
         inputTranscription := Some \<lparr>text_tr = Some inp\<rparr>\<rparr>)\<rparr>"

section \<open>Properties of a schedule\<close>

text \<open>
  A schedule is gapless from \<open>lo\<close> when its first start is at least \<open>lo\<close> and every later
  start is at least the previous start plus the previous duration.
\<close>

fun gapless :: "real \<Rightarrow> (real \<times> real) list \<Rightarrow> bool" where
  "gapless lo [] = True"
| "gapless lo ((t, d) # rest) = (lo \<le> t \<and> gapless (t + d) rest)"

section \<open>Properties of a transcript list\<close>

text \<open>The entries of the assistant that are not partial.\<close>

definition finalized_assistant :: "TranscriptItem list \<Rightarrow> TranscriptItem list" where
  "finalized_assistant T = filter (\<lambda>x. role x = Assistant \<and> isPartial x \<noteq> Some True) T"

text \<open>
  \<open>T'\<close> extends \<open>T\<close>: no entry is removed, no entry changes its role, and an entry of \<open>T\<close>
  that is not the last one, or is not partial, is the same in \<open>T'\<close>.
\<close>

definition extends_transcript :: "TranscriptItem list \<Rightarrow> TranscriptItem list \<Rightarrow> bool" where
  "extends_transcript T T' =
     (length T \<le> length T' \<and>
      (\<forall>i < length T.
         role (T' ! i) = role (T ! i) \<and>
         (Suc i < length T \<or> isPartial (T ! i) \<noteq> Some True \<longrightarrow> T' ! i = T ! i)))"

section \<open>Concrete inputs\<close>

definition config_without_token :: TwilioConfig where
  "config_without_token =
     \<lparr>accountSid = str ''AC0123'', authToken = [], myPhoneNumber = str ''+12054420312'',
      verifiedCallerId = None\<rparr>"

text \<open>Stand-ins for the platform: a \<open>btoa\<close> and a \<open>fetch\<close> with no network.\<close>

definition btoa_stub :: "js_string \<Rightarrow> js_error + js_string" where
  "btoa_stub s = Inr s"

definition fetch_offline :: "request \<Rightarrow> js_error + response" where
  "fetch_offline q =
     Inl \<lparr>error_name = str ''TypeError'', error_message = str ''Failed to fetch''\<rparr>"

text \<open>Readings at clock time \<open>t\<close>, with dates 1000, 1001, ...\<close>

definition clock_reading :: "real \<Rightarrow> real option \<Rightarrow> readings" where
  "clock_reading t d =
     \<lparr>currentTime_schedule = t, decodeAudioData = d, currentTime_interrupt = t,
      newDate = (\<lambda>k. 1000 + k)\<rparr>"

definition scenario :: "(readings \<times> live_server_message) list" where
  "scenario =
     [(clock_reading 10 (Some 0.5), audio_msg (str ''AAAA'')),
      (clock_reading 10.6 (Some 0.3), audio_msg (str ''AAAA''))]"

text \<open>A message with an audio payload, an output transcription and both markers.\<close>

definition full_msg :: live_server_message where
  "full_msg =
     \<lparr>serverContent = Some
        \<lparr>modelTurn = Some \<lparr>parts = Some [\<lparr>inlineData = Some \<lparr>data = Some (str ''AAAA'')\<rparr>\<rparr>]\<rparr>,
         outputTranscription = Some \<lparr>text_tr = Some (str ''Hello'')\<rparr>,
         inputTranscription = None, turnComplete = Some True, interrupted = Some True\<rparr>\<rparr>"

text \<open>The user has said "Wait" and the assistant is in the middle of a sentence.\<close>

definition speaking :: world where
  "speaking =
     run [(clock_reading 9 None, input_msg (str ''Wait'')),
          (clock_reading 10 None, output_msg (str ''I think we should''))]
       (call_start 9 module_init)"

section \<open>Teardown\<close>

text \<open>
  C9. \<open>stopLiveSession\<close> is idempotent: a second call from the state the first call leaves
  releases nothing (it makes no call to the outside) and returns that same state.
\<close>

theorem stopLiveSession_idempotent:
  "stopLiveSession (fst (stopLiveSession s)) = (fst (stopLiveSession s), [])"
  by (cases "processor s"; cases "inputAudioContext s"; cases "mediaStream s"; cases "session s";
      cases "audioContext s"; cases "sourceInput s")
     (simp_all add: stopLiveSession_def)

section \<open>The telephony request\<close>

text \<open>
  C10. When the account SID, the auth token or the Twilio phone number is the empty string,
  \<open>makeTwilioCall\<close> rejects with the error "Missing Twilio credentials" and no request has
  been built or sent.
\<close>

theorem makeTwilioCall_missing_credentials:
  "accountSid config = [] \<or> authToken config = [] \<or> myPhoneNumber config = [] \<Longrightarrow>
   makeTwilioCall btoa fetch config customerNumber userRealPhoneNumber =
     (Inl (new_Error (str ''Missing Twilio credentials'')), [])"
  by (simp add: makeTwilioCall_def)

theorem makeTwilioCall_missing_credentials_witness:
  "authToken config_without_token = [] \<and>
   makeTwilioCall btoa_stub fetch_offline config_without_token
       (str ''+15550100'') (str ''+15550101'') =
     (Inl (new_Error (str ''Missing Twilio credentials'')), [])"
proof -
  have h: "authToken config_without_token = []"
    by (simp add: config_without_token_def)
  then have "accountSid config_without_token = [] \<or> authToken config_without_token = [] \<or>
      myPhoneNumber config_without_token = []"
    by simp
  from makeTwilioCall_missing_credentials [OF this] h show ?thesis by simp
qed

section \<open>Playback scheduling\<close>

lemma scheduled_append: "scheduled (xs @ ys) = scheduled xs @ scheduled ys"
  by (induction xs rule: scheduled.induct) simp_all

lemma gapless_mono: "lo' \<le> lo \<Longrightarrow> gapless lo sch \<Longrightarrow> gapless lo' sch"
  by (cases sch) auto

lemma gapless_nth:
  "gapless lo sch \<Longrightarrow> Suc i < length sch \<Longrightarrow> fst (sch ! i) + snd (sch ! i) \<le> fst (sch ! Suc i)"
proof (induction lo sch arbitrary: i rule: gapless.induct)
  case (1 lo)
  then show ?case by simp
next
  case (2 lo t d rest)
  show ?case
  proof (cases i)
    case 0
    with "2.prems" show ?thesis by (cases rest) auto
  next
    case (Suc j)
    with "2.prems" "2.IH" [of j] show ?thesis by simp
  qed
qed

lemma gapless_hd: "gapless lo sch \<Longrightarrow> sch \<noteq> [] \<Longrightarrow> lo \<le> fst (hd sch)"
  by (cases sch) auto

lemma handleTranscriptions_schedule:
  "handleTranscriptions m s = (s', fx) \<Longrightarrow>
   nextStartTime s' = nextStartTime s \<and> audioContext s' = audioContext s \<and> scheduled fx = []"
  by (cases "sc_field outputTranscription m"; cases "sc_field inputTranscription m")
     (auto simp: handleTranscriptions_def Let_def)

lemma finalizeInput_schedule:
  "finalizeInput s = (s', fx) \<Longrightarrow>
   nextStartTime s' = nextStartTime s \<and> audioContext s' = audioContext s \<and> scheduled fx = []"
  by (auto simp: finalizeInput_def split: if_splits)

lemma finalizeOutput_schedule:
  "finalizeOutput s = (s', fx) \<Longrightarrow>
   nextStartTime s' = nextStartTime s \<and> audioContext s' = audioContext s \<and> scheduled fx = []"
  by (auto simp: finalizeOutput_def split: if_splits)

lemma finalizeTurns_schedule:
  assumes "finalizeTurns m s = (s', fx)"
  shows "nextStartTime s' = nextStartTime s \<and> audioContext s' = audioContext s \<and> scheduled fx = []"
proof (cases "truthy_flag (sc_field turnComplete m)")
  case False
  with assms show ?thesis by (simp add: finalizeTurns_def)
next
  case True
  obtain s1 fx1 where a: "finalizeInput s = (s1, fx1)" by (cases "finalizeInput s") auto
  obtain s2 fx2 where b: "finalizeOutput s1 = (s2, fx2)" by (cases "finalizeOutput s1") auto
  from True a b assms have "s' = s2" "fx = fx1 @ fx2" by (simp_all add: finalizeTurns_def)
  with finalizeInput_schedule [OF a] finalizeOutput_schedule [OF b] show ?thesis
    by (simp add: scheduled_append)
qed

lemma handleInterruption_unmarked:
  "\<not> truthy_flag (sc_field interrupted m) \<Longrightarrow> handleInterruption r m s = (s, [])"
  by (simp add: handleInterruption_def)

text \<open>What one message without an interrupted marker adds to the schedule.\<close>

lemma onmessage_schedule:
  assumes "\<not> truthy_flag (sc_field interrupted m)"
    and "onmessage r m s = (c, s', fx)"
  shows "audioContext s' = audioContext s \<and>
     (if truthy_string (base64Audio m) \<and> audioContext s then
        (case decodeAudioData r of
           None \<Rightarrow> scheduled fx = [] \<and>
             nextStartTime s' = max (nextStartTime s) (currentTime_schedule r)
         | Some d \<Rightarrow> scheduled fx = [(max (nextStartTime s) (currentTime_schedule r), d)] \<and>
             nextStartTime s' = max (nextStartTime s) (currentTime_schedule r) + d)
      else scheduled fx = [] \<and> nextStartTime s' = nextStartTime s)"
proof -
  obtain c1 s1 fx1 where a: "handleAudioOutput r m s = (c1, s1, fx1)"
    by (cases "handleAudioOutput r m s") auto
  have a': "audioContext s1 = audioContext s \<and>
     (if truthy_string (base64Audio m) \<and> audioContext s then
        (case decodeAudioData r of
           None \<Rightarrow> c1 = Threw \<and> scheduled fx1 = [] \<and>
             nextStartTime s1 = max (nextStartTime s) (currentTime_schedule r)
         | Some d \<Rightarrow> c1 = Returned \<and> scheduled fx1 = [(max (nextStartTime s) (currentTime_schedule r), d)] \<and>
             nextStartTime s1 = max (nextStartTime s) (currentTime_schedule r) + d)
      else c1 = Returned \<and> scheduled fx1 = [] \<and> nextStartTime s1 = nextStartTime s)"
    using a by (cases "decodeAudioData r") (auto simp: handleAudioOutput_def Let_def split: if_splits)
  show ?thesis
  proof (cases c1)
    case Threw
    with a assms(2) have "s' = s1" "fx = fx1" by (simp_all add: onmessage_def)
    with a' Threw show ?thesis by (auto split: if_splits option.splits)
  next
    case Returned
    obtain s2 fx2 where t: "handleTranscriptions m s1 = (s2, fx2)"
      by (cases "handleTranscriptions m s1") auto
    obtain s3 fx3 where f: "finalizeTurns m s2 = (s3, fx3)"
      by (cases "finalizeTurns m s2") auto
    have "onmessage r m s = (Returned, s3, fx1 @ fx2 @ fx3 @ [])"
      using a Returned t f handleInterruption_unmarked [OF assms(1), of r s3]
      by (simp add: onmessage_def)
    with assms(2) have eq: "s' = s3" "fx = fx1 @ fx2 @ fx3" by simp_all
    from handleTranscriptions_schedule [OF t] finalizeTurns_schedule [OF f]
    have "nextStartTime s3 = nextStartTime s1" "audioContext s3 = audioContext s1"
      "scheduled (fx1 @ fx2 @ fx3) = scheduled fx1"
      by (simp_all add: scheduled_append)
    with a' eq Returned show ?thesis by (auto split: if_splits option.splits)
  qed
qed

lemma receive_parts:
  "onmessage r m (gemini w) = (c, s', fx) \<Longrightarrow>
   gemini (receive r m w) = s' \<and> trace (receive r m w) = trace w @ fx"
  by (simp add: receive_def)

lemma run_schedule:
  assumes "\<forall>(r, m) \<in> set msgs. \<not> truthy_flag (sc_field interrupted m)"
    and "audioContext (gemini w)"
  shows "\<exists>X. scheduled (trace (run msgs w)) = scheduled (trace w) @ X \<and>
     gapless (nextStartTime (gemini w)) X \<and>
     map snd X =
       List.map_filter
         (\<lambda>(r, m). if truthy_string (base64Audio m) then decodeAudioData r else None) msgs"
  using assms
proof (induction msgs arbitrary: w)
  case Nil
  then show ?case by simp
next
  case (Cons p msgs)
  obtain r m where p: "p = (r, m)" by (cases p) auto
  obtain c s' fx where o: "onmessage r m (gemini w) = (c, s', fx)"
    by (cases "onmessage r m (gemini w)") auto
  let ?w = "receive r m w"
  from Cons.prems(1) p have unmarked: "\<not> truthy_flag (sc_field interrupted m)" by simp
  note step = onmessage_schedule [OF unmarked o]
  note parts = receive_parts [OF o]
  from step parts Cons.prems(2) have ctx: "audioContext (gemini ?w)" by simp
  from Cons.prems(1) have rest: "\<forall>(r, m) \<in> set msgs. \<not> truthy_flag (sc_field interrupted m)"
    by simp
  from Cons.IH [OF rest ctx] obtain X where
    X: "scheduled (trace (run msgs ?w)) = scheduled (trace ?w) @ X"
       "gapless (nextStartTime (gemini ?w)) X"
       "map snd X = List.map_filter
         (\<lambda>(r, m). if truthy_string (base64Audio m) then decodeAudioData r else None) msgs"
    by blast
  let ?Y = "scheduled fx"
  have tr: "scheduled (trace (run (p # msgs) w)) = scheduled (trace w) @ (?Y @ X)"
    using X(1) parts p by (simp add: scheduled_append)
  have "gapless (nextStartTime (gemini w)) (?Y @ X) \<and>
     map snd (?Y @ X) = List.map_filter
         (\<lambda>(r, m). if truthy_string (base64Audio m) then decodeAudioData r else None) (p # msgs)"
  proof (cases "truthy_string (base64Audio m)")
    case False
    with step parts X(2,3) p show ?thesis by simp
  next
    case True
    show ?thesis
    proof (cases "decodeAudioData r")
      case None
      with True step parts Cons.prems(2) have
        "?Y = []" "nextStartTime (gemini w) \<le> nextStartTime (gemini ?w)"
        by simp_all
      with X(2,3) True None p gapless_mono show ?thesis
        by auto
    next
      case (Some d)
      with True step parts Cons.prems(2) have
        "?Y = [(max (nextStartTime (gemini w)) (currentTime_schedule r), d)]"
        "nextStartTime (gemini ?w) = max (nextStartTime (gemini w)) (currentTime_schedule r) + d"
        by simp_all
      with X(2,3) True Some p show ?thesis
        by simp
    qed
  qed
  with tr show ?case by blast
qed

lemma scenario_unmarked:
  "\<forall>(r, m) \<in> set scenario. \<not> truthy_flag (sc_field interrupted m)"
  by (simp add: scenario_def audio_msg_def no_content_def sc_field_def truthy_flag_def)

lemma scenario_schedule:
  "scheduled (trace (run scenario (call_start 10 module_init))) = [(10, 0.5), (10.6, 0.3)] \<and>
   nextStartTime (gemini (run scenario (call_start 10 module_init))) = 10.9"
  by (simp add: scenario_def call_start_def startLiveSession_def module_init_def receive_def
      onmessage_def handleAudioOutput_def handleTranscriptions_def finalizeTurns_def
      handleInterruption_def audio_msg_def no_content_def sc_field_def truthy_flag_def
      truthy_string_def base64Audio_def clock_reading_def str_def Let_def)

text \<open>
  C1. For every sequence of messages none of which carries an interrupted marker, handled
  in arrival order from session open at clock time \<open>t0\<close>: each decoded audio chunk is
  started at \<open>max nextStartTime currentTime\<close> and \<open>nextStartTime\<close> then becomes that start
  plus the buffer's duration; the scheduled durations are those of the chunks, in order;
  every start is at least the previous start plus the previous duration; and the first
  start is at least \<open>t0\<close>.
\<close>

theorem monotonic_scheduling:
  assumes "\<forall>(r, m) \<in> set msgs. \<not> truthy_flag (sc_field interrupted m)"
  shows
    "(truthy_string (base64Audio m) \<and> audioContext s \<and> decodeAudioData r = Some d \<and>
      \<not> truthy_flag (sc_field interrupted m) \<longrightarrow>
        scheduled (snd (snd (onmessage r m s))) =
          [(max (nextStartTime s) (currentTime_schedule r), d)] \<and>
        nextStartTime (fst (snd (onmessage r m s))) =
          max (nextStartTime s) (currentTime_schedule r) + d) \<and>
     (let sch = scheduled (trace (run msgs (call_start t0 s0))) in
        map snd sch =
          List.map_filter
            (\<lambda>(r, m). if truthy_string (base64Audio m) then decodeAudioData r else None) msgs \<and>
        (\<forall>i. Suc i < length sch \<longrightarrow> fst (sch ! i) + snd (sch ! i) \<le> fst (sch ! Suc i)) \<and>
        (sch \<noteq> [] \<longrightarrow> t0 \<le> fst (hd sch)))"
proof -
  have one: "truthy_string (base64Audio m) \<and> audioContext s \<and> decodeAudioData r = Some d \<and>
      \<not> truthy_flag (sc_field interrupted m) \<longrightarrow>
        scheduled (snd (snd (onmessage r m s))) =
          [(max (nextStartTime s) (currentTime_schedule r), d)] \<and>
        nextStartTime (fst (snd (onmessage r m s))) =
          max (nextStartTime s) (currentTime_schedule r) + d"
  proof (intro impI)
    assume h: "truthy_string (base64Audio m) \<and> audioContext s \<and> decodeAudioData r = Some d \<and>
      \<not> truthy_flag (sc_field interrupted m)"
    obtain c s' fx where o: "onmessage r m s = (c, s', fx)"
      by (cases "onmessage r m s") auto
    from h onmessage_schedule [OF _ o] o show
      "scheduled (snd (snd (onmessage r m s))) =
          [(max (nextStartTime s) (currentTime_schedule r), d)] \<and>
        nextStartTime (fst (snd (onmessage r m s))) =
          max (nextStartTime s) (currentTime_schedule r) + d"
      by simp
  qed
  have ctx: "audioContext (gemini (call_start t0 s0))"
    by (simp add: call_start_def startLiveSession_def)
  have start: "nextStartTime (gemini (call_start t0 s0)) = t0" "trace (call_start t0 s0) = []"
    by (simp_all add: call_start_def startLiveSession_def)
  from run_schedule [OF assms ctx] start obtain X where
    X: "scheduled (trace (run msgs (call_start t0 s0))) = X" "gapless t0 X"
       "map snd X = List.map_filter
         (\<lambda>(r, m). if truthy_string (base64Audio m) then decodeAudioData r else None) msgs"
    by auto
  from X gapless_nth [of t0 X] gapless_hd [of t0 X] one show ?thesis
    by (simp add: Let_def)
qed

theorem monotonic_scheduling_witness:
  "list_all (\<lambda>(r, m). \<not> truthy_flag (sc_field interrupted m)) scenario \<and>
   truthy_string (base64Audio (audio_msg (str ''AAAA''))) \<and>
   audioContext (gemini (call_start 10 module_init)) \<and>
   nextStartTime (fst (snd (onmessage (clock_reading 10 (Some 0.5)) (audio_msg (str ''AAAA''))
      (gemini (call_start 10 module_init))))) = 10.5 \<and>
   (let sch = scheduled (trace (run scenario (call_start 10 module_init))) in
      sch = [(10, 0.5), (10.6, 0.3)] \<and>
      fst (sch ! 0) + snd (sch ! 0) \<le> fst (sch ! Suc 0) \<and> 10 \<le> fst (hd sch))"
proof -
  have audio: "truthy_string (base64Audio (audio_msg (str ''AAAA'')))"
    by (simp add: audio_msg_def no_content_def truthy_string_def base64Audio_def str_def)
  have ctx: "audioContext (gemini (call_start 10 module_init))"
    "nextStartTime (gemini (call_start 10 module_init)) = 10"
    by (simp_all add: call_start_def startLiveSession_def)
  have unmarked: "\<not> truthy_flag (sc_field interrupted (audio_msg (str ''AAAA'')))"
    by (simp add: audio_msg_def no_content_def sc_field_def truthy_flag_def)
  have dec: "decodeAudioData (clock_reading 10 (Some 0.5)) = Some 0.5"
    "currentTime_schedule (clock_reading 10 (Some 0.5)) = 10"
    by (simp_all add: clock_reading_def)
  note T = monotonic_scheduling [OF scenario_unmarked,
      of "audio_msg (str ''AAAA'')" "gemini (call_start 10 module_init)"
         "clock_reading 10 (Some 0.5)" "0.5" 10 module_init]
  from T audio ctx unmarked dec scenario_unmarked scenario_schedule show ?thesis
    by (simp add: Let_def list_all_iff)
qed

section \<open>The dispatch order\<close>

lemma handle_events_append:
  "handle_events r (xs @ ys) s =
     (case handle_events r xs s of
        (Threw, s1, fx1) \<Rightarrow> (Threw, s1, fx1)
      | (Returned, s1, fx1) \<Rightarrow>
          (case handle_events r ys s1 of (c, s2, fx2) \<Rightarrow> (c, s2, fx1 @ fx2)))"
  by (induction xs arbitrary: s) (auto split: prod.splits completion.splits)

lemma audio_segment: "handle_events r (audio_events s m) s = handleAudioOutput r m s"
  by (cases "base64Audio m"; cases "decodeAudioData r")
     (simp_all add: audio_events_def handleAudioOutput_def truthy_string_def Let_def)

lemma transcript_segment:
  "handle_events r (transcript_events m) s = (Returned, handleTranscriptions m s)"
  by (cases "sc_field outputTranscription m"; cases "sc_field inputTranscription m")
     (simp_all add: transcript_events_def handleTranscriptions_def Let_def)

lemma turn_segment: "handle_events r (turn_events m) s = (Returned, finalizeTurns m s)"
  by (cases "finalizeInput s"; cases "finalizeOutput (fst (finalizeInput s))")
     (simp_all add: turn_events_def finalizeTurns_def)

lemma interrupt_segment:
  "handle_events r (interrupt_events s m) s = (Returned, handleInterruption r m s)"
  by (simp add: interrupt_events_def handleInterruption_def)

lemma handleAudioOutput_audioContext:
  "handleAudioOutput r m s = (c, s', fx) \<Longrightarrow> audioContext s' = audioContext s"
  by (cases "decodeAudioData r")
     (auto simp: handleAudioOutput_def Let_def split: if_splits)

lemma onmessage_dispatch: "onmessage r m s = handle_events r (dispatch s m) s"
proof -
  obtain c s1 fx1 where a: "handleAudioOutput r m s = (c, s1, fx1)"
    by (cases "handleAudioOutput r m s") auto
  show ?thesis
  proof (cases c)
    case Threw
    with a show ?thesis
      by (simp add: onmessage_def dispatch_def handle_events_append audio_segment)
  next
    case Returned
    obtain s2 fx2 where t: "handleTranscriptions m s1 = (s2, fx2)"
      by (cases "handleTranscriptions m s1") auto
    obtain s3 fx3 where f: "finalizeTurns m s2 = (s3, fx3)"
      by (cases "finalizeTurns m s2") auto
    obtain s4 fx4 where i: "handleInterruption r m s3 = (s4, fx4)"
      by (cases "handleInterruption r m s3") auto
    have ctx: "audioContext s3 = audioContext s"
      using handleAudioOutput_audioContext [OF a] handleTranscriptions_schedule [OF t]
        finalizeTurns_schedule [OF f] by simp
    have same: "interrupt_events s m = interrupt_events s3 m"
      by (simp add: interrupt_events_def ctx)
    have "handle_events r (interrupt_events s m) s3 = (Returned, s4, fx4)"
      by (simp add: same interrupt_segment i)
    then have "handle_events r (turn_events m @ interrupt_events s m) s2 = (Returned, s4, fx3 @ fx4)"
      by (simp add: handle_events_append turn_segment f)
    then have "handle_events r (transcript_events m @ turn_events m @ interrupt_events s m) s1 =
        (Returned, s4, fx2 @ fx3 @ fx4)"
      by (simp add: handle_events_append transcript_segment t)
    then have "handle_events r (dispatch s m) s = (Returned, s4, fx1 @ fx2 @ fx3 @ fx4)"
      using a Returned by (simp add: dispatch_def handle_events_append audio_segment)
    moreover have "onmessage r m s = (Returned, s4, fx1 @ fx2 @ fx3 @ fx4)"
      using a Returned t f i by (simp add: onmessage_def)
    ultimately show ?thesis by simp
  qed
qed

lemma dispatch_is_spec_dispatch:
  assumes "audioContext s"
    and "spec_audio_payload m = base64Audio m" and "base64Audio m \<noteq> Some []"
    and "sc_field outputTranscription m = None \<or> sc_field inputTranscription m = None"
    and "sc_field outputTranscription m = None \<or> spec_text outputTranscription m \<noteq> None"
    and "sc_field inputTranscription m = None \<or> spec_text inputTranscription m \<noteq> None"
  shows "dispatch s m = spec_dispatch m"
  using assms
  by (cases "base64Audio m"; cases "sc_field outputTranscription m";
      cases "sc_field inputTranscription m")
     (auto simp: dispatch_def spec_dispatch_def audio_events_def transcript_events_def
       turn_events_def interrupt_events_def spec_text_def toString_opt_def)

lemma handle_events_all:
  "handle_events r evs s = (Returned, s', fx) \<Longrightarrow> handle_all r evs s = (s', fx)"
proof (induction evs arbitrary: s s' fx)
  case Nil
  then show ?case by simp
next
  case (Cons ev evs)
  obtain c s1 fx1 where e: "handle_event r ev s = (c, s1, fx1)"
    by (cases "handle_event r ev s") auto
  obtain c2 s2 fx2 where t: "handle_events r evs s1 = (c2, s2, fx2)"
    by (cases "handle_events r evs s1") auto
  from Cons.prems e t have "c = Returned" "c2 = Returned" "s' = s2" "fx = fx1 @ fx2"
    by (cases c; simp)+
  with Cons.IH [of s1 s2 fx2] e t show ?case by simp
qed

lemma audio_events_nonempty:
  "audio_events s m \<noteq> [] \<longleftrightarrow> truthy_string (base64Audio m) \<and> audioContext s"
  by (cases "base64Audio m") (simp_all add: audio_events_def truthy_string_def)

lemma onmessage_completes:
  assumes "audio_events s m = [] \<or> decodeAudioData r \<noteq> None"
  shows "fst (onmessage r m s) = Returned"
proof -
  have "fst (handleAudioOutput r m s) = Returned"
    using assms audio_events_nonempty [of s m]
    by (cases "decodeAudioData r") (auto simp: handleAudioOutput_def Let_def)
  then obtain s1 fx1 where a: "handleAudioOutput r m s = (Returned, s1, fx1)"
    by (cases "handleAudioOutput r m s") auto
  obtain s2 fx2 where t: "handleTranscriptions m s1 = (s2, fx2)"
    by (cases "handleTranscriptions m s1") auto
  obtain s3 fx3 where f: "finalizeTurns m s2 = (s3, fx3)"
    by (cases "finalizeTurns m s2") auto
  obtain s4 fx4 where i: "handleInterruption r m s3 = (s4, fx4)"
    by (cases "handleInterruption r m s3") auto
  from a t f i show ?thesis by (simp add: onmessage_def)
qed

lemma onmessage_decode_rejected:
  assumes "audio_events s m \<noteq> []" and "decodeAudioData r = None"
  shows "onmessage r m s =
     (Threw, s\<lparr>nextStartTime := max (nextStartTime s) (currentTime_schedule r)\<rparr>,
      [OnAudioData 0.5])"
  using assms audio_events_nonempty [of s m]
  by (simp add: onmessage_def handleAudioOutput_def Let_def)

text \<open>
  C2 (amended). One run of \<open>onmessage\<close> handles the events of \<open>dispatch\<close> in order: the
  audio chunk, when the first part of the model turn carries a non-empty payload and the
  audio context exists; then at most one transcript delta, the assistant's when an output
  transcription is present and the user's only otherwise; then turn complete; then
  interrupted, when the audio context exists. When there is no audio chunk or its decoding
  succeeds, every event of the list is handled. When the decoding of the audio chunk is
  rejected, the run ends there: \<open>nextStartTime\<close> has been raised to the clock, the
  amplitude callback has been called, and no later event of the message is handled. For a
  message that does not carry both transcriptions, whose transcriptions have a text, whose
  audio payload (if any) is non-empty and in the first part, and with the audio context in
  place, the events are those of the dispatch rule of the specification.
\<close>

theorem onmessage_dispatch_order:
  "onmessage r m s = handle_events r (dispatch s m) s \<and>
   dispatch s m = audio_events s m @ transcript_events m @ turn_events m @ interrupt_events s m \<and>
   (audio_events s m = [] \<or> decodeAudioData r \<noteq> None \<longrightarrow>
      onmessage r m s = (Returned, handle_all r (dispatch s m) s)) \<and>
   (audio_events s m \<noteq> [] \<and> decodeAudioData r = None \<longrightarrow>
      onmessage r m s =
        (Threw, s\<lparr>nextStartTime := max (nextStartTime s) (currentTime_schedule r)\<rparr>,
         [OnAudioData 0.5])) \<and>
   (sc_field outputTranscription m = Some t \<longrightarrow>
      transcript_events m = [TranscriptDelta Assistant (toString_opt (text_tr t))]) \<and>
   (audioContext s \<and> spec_audio_payload m = base64Audio m \<and> base64Audio m \<noteq> Some [] \<and>
    (sc_field outputTranscription m = None \<or> sc_field inputTranscription m = None) \<and>
    (sc_field outputTranscription m = None \<or> spec_text outputTranscription m \<noteq> None) \<and>
    (sc_field inputTranscription m = None \<or> spec_text inputTranscription m \<noteq> None) \<longrightarrow>
      dispatch s m = spec_dispatch m)"
proof -
  have all: "onmessage r m s = (Returned, handle_all r (dispatch s m) s)"
    if h: "audio_events s m = [] \<or> decodeAudioData r \<noteq> None"
  proof -
    obtain c s' fx where o: "onmessage r m s = (c, s', fx)"
      by (cases "onmessage r m s") auto
    with onmessage_completes [OF h] have c: "c = Returned" by simp
    from o c onmessage_dispatch [of r m s]
    have "handle_events r (dispatch s m) s = (Returned, s', fx)" by simp
    from handle_events_all [OF this] o c show ?thesis by simp
  qed
  from all onmessage_dispatch [of r m s] onmessage_decode_rejected [of s m r]
    dispatch_is_spec_dispatch [of s m]
  show ?thesis
    by (simp add: dispatch_def transcript_events_def)
qed

lemma full_msg_fields:
  "base64Audio full_msg = Some (str ''AAAA'')"
  "spec_audio_payload full_msg = Some (str ''AAAA'')"
  "sc_field outputTranscription full_msg = Some \<lparr>text_tr = Some (str ''Hello'')\<rparr>"
  "spec_text outputTranscription full_msg = Some (str ''Hello'')"
  "sc_field inputTranscription full_msg = None"
  "spec_text inputTranscription full_msg = None"
  "sc_field turnComplete full_msg = Some True"
  "sc_field interrupted full_msg = Some True"
  by (simp_all add: full_msg_def base64Audio_def spec_audio_payload_def spec_text_def
      sc_field_def)

lemma full_msg_dispatch:
  "audioContext s \<Longrightarrow>
   dispatch s full_msg =
     [AudioChunk (str ''AAAA''), TranscriptDelta Assistant (str ''Hello''), TurnComplete,
      Interrupted]"
  "spec_dispatch full_msg =
     [AudioChunk (str ''AAAA''), TranscriptDelta Assistant (str ''Hello''), TurnComplete,
      Interrupted]"
  "audioContext s \<Longrightarrow> audio_events s full_msg = [AudioChunk (str ''AAAA'')]"
  by (simp_all add: dispatch_def spec_dispatch_def audio_events_def transcript_events_def
      turn_events_def interrupt_events_def full_msg_fields toString_opt_def truthy_flag_def
      str_def)

text \<open>
  The amended C2 at a message with four fields present: all four events are handled when
  the decoding succeeds, and only the amplitude callback is called when it is rejected.
\<close>

theorem onmessage_dispatch_order_witness:
  "audioContext (gemini (call_start 10 module_init)) \<and>
   spec_audio_payload full_msg = base64Audio full_msg \<and>
   base64Audio full_msg \<noteq> Some [] \<and>
   sc_field inputTranscription full_msg = None \<and>
   sc_field outputTranscription full_msg = Some \<lparr>text_tr = Some (str ''Hello'')\<rparr> \<and>
   spec_text outputTranscription full_msg \<noteq> None \<and>
   decodeAudioData (clock_reading 10 (Some 0.5)) \<noteq> None \<and>
   audio_events (gemini (call_start 10 module_init)) full_msg \<noteq> [] \<and>
   decodeAudioData (clock_reading 10 None) = None \<and>
   dispatch (gemini (call_start 10 module_init)) full_msg = spec_dispatch full_msg \<and>
   onmessage (clock_reading 10 (Some 0.5)) full_msg (gemini (call_start 10 module_init)) =
     (Returned,
      handle_all (clock_reading 10 (Some 0.5))
        [AudioChunk (str ''AAAA''), TranscriptDelta Assistant (str ''Hello''), TurnComplete,
         Interrupted] (gemini (call_start 10 module_init))) \<and>
   snd (snd (onmessage (clock_reading 10 None) full_msg (gemini (call_start 10 module_init)))) =
     [OnAudioData 0.5]"
proof -
  let ?s = "gemini (call_start 10 module_init)"
  have ctx: "audioContext ?s"
    by (simp add: call_start_def startLiveSession_def)
  have ne: "base64Audio full_msg \<noteq> Some []"
    by (simp add: full_msg_fields str_def)
  have dec: "decodeAudioData (clock_reading 10 (Some 0.5)) \<noteq> None"
    "decodeAudioData (clock_reading 10 None) = None"
    by (simp_all add: clock_reading_def)
  have au: "audio_events ?s full_msg \<noteq> []"
    by (simp add: full_msg_dispatch(3) [OF ctx])
  have sp: "spec_text outputTranscription full_msg \<noteq> None"
    "spec_audio_payload full_msg = base64Audio full_msg"
    by (simp_all add: full_msg_fields)
  note T1 = onmessage_dispatch_order [of "clock_reading 10 (Some 0.5)" full_msg ?s
      "\<lparr>text_tr = Some (str ''Hello'')\<rparr>"]
  note T2 = onmessage_dispatch_order [of "clock_reading 10 None" full_msg ?s
      "\<lparr>text_tr = Some (str ''Hello'')\<rparr>"]
  from T1 ctx ne sp full_msg_fields(5)
  have d: "dispatch ?s full_msg = spec_dispatch full_msg"
    by blast
  from T1 dec(1) have a: "onmessage (clock_reading 10 (Some 0.5)) full_msg ?s =
      (Returned, handle_all (clock_reading 10 (Some 0.5)) (dispatch ?s full_msg) ?s)"
    by blast
  from T2 au dec(2) have "onmessage (clock_reading 10 None) full_msg ?s =
      (Threw, ?s\<lparr>nextStartTime := max (nextStartTime ?s)
         (currentTime_schedule (clock_reading 10 None))\<rparr>, [OnAudioData 0.5])"
    by blast
  then have b: "snd (snd (onmessage (clock_reading 10 None) full_msg ?s)) = [OnAudioData 0.5]"
    by simp
  from a have a': "onmessage (clock_reading 10 (Some 0.5)) full_msg ?s =
      (Returned, handle_all (clock_reading 10 (Some 0.5))
        [AudioChunk (str ''AAAA''), TranscriptDelta Assistant (str ''Hello''), TurnComplete,
         Interrupted] ?s)"
    by (simp only: full_msg_dispatch(1) [OF ctx])
  from ctx ne sp dec au d a' b full_msg_fields(3,5) show ?thesis
    by (simp only: simp_thms)
qed

text \<open>
  C2 as stated fails. For a message with both transcriptions the dispatch rule lists two
  deltas; the handler raises only the assistant's, calls the transcript callback once, and
  leaves the user's buffer empty.
\<close>

theorem dispatch_both_transcriptions_counterexample:
  "spec_dispatch (both_msg (str ''Hello'') (str ''Hi'')) =
     [TranscriptDelta Assistant (str ''Hello''), TranscriptDelta User (str ''Hi'')] \<and>
   dispatch (gemini (call_start 10 module_init)) (both_msg (str ''Hello'') (str ''Hi'')) =
     [TranscriptDelta Assistant (str ''Hello'')] \<and>
   onmessage (clock_reading 10 None) (both_msg (str ''Hello'') (str ''Hi''))
       (gemini (call_start 10 module_init)) =
     (Returned, (gemini (call_start 10 module_init))\<lparr>currentOutputTranscription := str ''Hello''\<rparr>,
      [OnTranscriptUpdate (str ''Hello'') False False]) \<and>
   currentInputTranscription (fst (snd (onmessage (clock_reading 10 None)
     (both_msg (str ''Hello'') (str ''Hi'')) (gemini (call_start 10 module_init))))) = []"
  by (simp add: spec_dispatch_def spec_audio_payload_def spec_text_def dispatch_def
      audio_events_def transcript_events_def
      turn_events_def interrupt_events_def both_msg_def no_content_def base64Audio_def
      sc_field_def toString_opt_def truthy_flag_def truthy_string_def onmessage_def
      handleAudioOutput_def handleTranscriptions_def finalizeTurns_def handleInterruption_def
      call_start_def startLiveSession_def module_init_def Let_def)

section \<open>Interruption\<close>

lemma receive_interrupted:
  assumes "dispatch (gemini w) m = [Interrupted]"
  shows "receive r m w =
     w\<lparr>gemini := (gemini w)\<lparr>nextStartTime := currentTime_interrupt r,
                               currentOutputTranscription := []\<rparr>\<rparr>"
proof -
  have "onmessage r m (gemini w) =
      (Returned, (gemini w)\<lparr>nextStartTime := currentTime_interrupt r,
                             currentOutputTranscription := []\<rparr>, [])"
    by (simp add: onmessage_dispatch assms)
  then show ?thesis by (simp add: receive_def)
qed

lemma dispatch_single:
  "dispatch s turnComplete_msg = [TurnComplete]"
  "audioContext s \<Longrightarrow> dispatch s interrupted_msg = [Interrupted]"
  "dispatch s (output_msg t) = [TranscriptDelta Assistant t]"
  "dispatch s (input_msg t) = [TranscriptDelta User t]"
  by (simp_all add: dispatch_def audio_events_def transcript_events_def turn_events_def
      interrupt_events_def turnComplete_msg_def interrupted_msg_def output_msg_def input_msg_def
      no_content_def base64Audio_def sc_field_def truthy_flag_def toString_opt_def)

lemma trim_empty: "trim [] = []"
  by (simp add: trim_def)

lemma finalizeOutput_empty:
  "currentOutputTranscription s = [] \<Longrightarrow> finalizeOutput s = (s, [])"
  by (simp add: finalizeOutput_def trim_empty)

lemma list_update_last: "xs \<noteq> [] \<Longrightarrow> xs[length xs - Suc 0 := x] = butlast xs @ [x]"
  by (induction xs rule: rev_induct) (simp_all add: list_update_append)

lemma filter_replace_last:
  assumes "xs \<noteq> []" and "\<not> P (last xs)" and "\<not> P x"
  shows "filter P (xs[length xs - Suc 0 := x]) = filter P xs"
proof -
  have a: "filter P (butlast xs @ [x]) = filter P (butlast xs)"
    using assms(3) by simp
  have b: "filter P (butlast xs @ [last xs]) = filter P (butlast xs)"
    using assms(2) by simp
  have c: "butlast xs @ [last xs] = xs"
    using assms(1) by simp
  from a b show ?thesis
    unfolding list_update_last [OF assms(1)] c by simp
qed

text \<open>An update for the user never changes the finalized assistant entries.\<close>

lemma user_update_finalized_assistant:
  "finalized_assistant (transcriptCallback now t True f T) = finalized_assistant T"
proof (cases "last_matches T True")
  case False
  then show ?thesis
    by (simp add: transcriptCallback_def finalized_assistant_def role_of_def)
next
  case True
  then have "T \<noteq> []" "role (last T) = User"
    by (simp_all add: last_matches_def role_of_def)
  with True show ?thesis
    unfolding finalized_assistant_def transcriptCallback_def
    by (simp add: filter_replace_last role_of_def)
qed

lemma turnComplete_after_interrupt:
  assumes "currentOutputTranscription (gemini w) = []"
  shows "finalized_assistant (transcripts (receive r turnComplete_msg w)) =
     finalized_assistant (transcripts w)"
proof -
  let ?s = "gemini w"
  obtain s1 fx1 where a: "finalizeInput ?s = (s1, fx1)" by (cases "finalizeInput ?s") auto
  have out: "currentOutputTranscription s1 = []"
    using a assms by (auto simp: finalizeInput_def split: if_splits)
  have fx: "fx1 = [] \<or> fx1 = [OnTranscriptUpdate (currentInputTranscription ?s) True True]"
    using a by (auto simp: finalizeInput_def split: if_splits)
  have "onmessage r turnComplete_msg ?s = (Returned, s1, fx1)"
    using a finalizeOutput_empty [OF out] by (simp add: onmessage_dispatch dispatch_single)
  then have "transcripts (receive r turnComplete_msg w) = setTranscripts (newDate r) 0 fx1 (transcripts w)"
    by (simp add: receive_def)
  with fx show ?thesis
    by (auto simp: user_update_finalized_assistant)
qed

text \<open>
  C4. When the only event of a message is Interrupted (its interrupted marker is set, it
  carries nothing else, and the audio context exists), handling it sets \<open>nextStartTime\<close> to
  the current clock time and empties the assistant's buffer, and changes nothing else: the
  user's buffer, the transcript list and every other variable are the same, and no
  callback is called.
\<close>

theorem interrupted_effect:
  assumes "dispatch (gemini w) m = [Interrupted]"
  shows "receive r m w =
       w\<lparr>gemini := (gemini w)\<lparr>nextStartTime := currentTime_interrupt r,
                                 currentOutputTranscription := []\<rparr>\<rparr> \<and>
     nextStartTime (gemini (receive r m w)) = currentTime_interrupt r \<and>
     currentOutputTranscription (gemini (receive r m w)) = [] \<and>
     currentInputTranscription (gemini (receive r m w)) = currentInputTranscription (gemini w) \<and>
     transcripts (receive r m w) = transcripts w \<and>
     trace (receive r m w) = trace w"
  by (simp add: receive_interrupted [OF assms])

text \<open>
  C3 (amended). In a state whose transcript list ends with a partial assistant entry and whose
  assistant buffer is non-empty, handling an Interrupted event leaves the transcript list
  as it is (the partial entry stays, and stays partial), empties the assistant's buffer,
  and adds no finalized assistant entry; a turn complete that follows adds none either.
\<close>

theorem interrupted_keeps_entry:
  assumes "dispatch (gemini w) m = [Interrupted]"
    and "transcripts w \<noteq> []"
    and "role (last (transcripts w)) = Assistant"
    and "isPartial (last (transcripts w)) = Some True"
    and "currentOutputTranscription (gemini w) \<noteq> []"
  shows "transcripts (receive r m w) = transcripts w \<and>
     currentOutputTranscription (gemini (receive r m w)) = [] \<and>
     finalized_assistant (transcripts (receive r m w)) = finalized_assistant (transcripts w) \<and>
     finalized_assistant (transcripts (receive r' turnComplete_msg (receive r m w))) =
       finalized_assistant (transcripts w)"
proof -
  have i: "transcripts (receive r m w) = transcripts w"
    "currentOutputTranscription (gemini (receive r m w)) = []"
    by (simp_all add: receive_interrupted [OF assms(1)])
  from turnComplete_after_interrupt [OF i(2), of r'] i show ?thesis by simp
qed

lemma receive_output:
  "receive r (output_msg t) w =
     \<lparr>gemini = (gemini w)\<lparr>currentOutputTranscription := currentOutputTranscription (gemini w) @ t\<rparr>,
      transcripts = transcriptCallback (newDate r 0) (currentOutputTranscription (gemini w) @ t)
        False False (transcripts w),
      trace = trace w @ [OnTranscriptUpdate (currentOutputTranscription (gemini w) @ t) False False]\<rparr>"
  by (simp add: receive_def onmessage_dispatch dispatch_single Let_def)

lemma receive_input:
  "receive r (input_msg t) w =
     \<lparr>gemini = (gemini w)\<lparr>currentInputTranscription := currentInputTranscription (gemini w) @ t\<rparr>,
      transcripts = transcriptCallback (newDate r 0) (currentInputTranscription (gemini w) @ t)
        True False (transcripts w),
      trace = trace w @ [OnTranscriptUpdate (currentInputTranscription (gemini w) @ t) True False]\<rparr>"
  by (simp add: receive_def onmessage_dispatch dispatch_single Let_def)

lemma receive_turnComplete:
  "receive r turnComplete_msg w =
     (case finalizeInput (gemini w) of
        (s1, fx1) \<Rightarrow>
          (case finalizeOutput s1 of
             (s2, fx2) \<Rightarrow>
               \<lparr>gemini = s2,
                transcripts = setTranscripts (newDate r) 0 (fx1 @ fx2) (transcripts w),
                trace = trace w @ fx1 @ fx2\<rparr>))"
  by (simp add: receive_def onmessage_dispatch dispatch_single split: prod.splits)

lemma call_start_state:
  "currentInputTranscription (gemini (call_start t0 s0)) = []"
  "currentOutputTranscription (gemini (call_start t0 s0)) = []"
  "audioContext (gemini (call_start t0 s0))"
  "nextStartTime (gemini (call_start t0 s0)) = t0"
  "transcripts (call_start t0 s0) = []"
  "trace (call_start t0 s0) = []"
  by (simp_all add: call_start_def startLiveSession_def)

lemma speaking_state:
  "audioContext (gemini speaking)"
  "currentInputTranscription (gemini speaking) = str ''Wait''"
  "currentOutputTranscription (gemini speaking) = str ''I think we should''"
  "transcripts speaking =
     [\<lparr>role = User, text_item = str ''Wait'', timestamp = 1000, isPartial = Some True\<rparr>,
      \<lparr>role = Assistant, text_item = str ''I think we should'', timestamp = 1000,
       isPartial = Some True\<rparr>]"
  by (simp_all add: speaking_def receive_output receive_input call_start_state
      transcriptCallback_def last_matches_def role_of_def clock_reading_def)

text \<open>C4 at the state \<open>speaking\<close>: the user's buffer still holds "Wait".\<close>

theorem interrupted_effect_witness:
  "dispatch (gemini speaking) interrupted_msg = [Interrupted] \<and>
   nextStartTime (gemini (receive (clock_reading 11 None) interrupted_msg speaking)) = 11 \<and>
   currentOutputTranscription (gemini (receive (clock_reading 11 None) interrupted_msg speaking)) = [] \<and>
   currentInputTranscription (gemini (receive (clock_reading 11 None) interrupted_msg speaking)) =
     str ''Wait'' \<and>
   transcripts (receive (clock_reading 11 None) interrupted_msg speaking) = transcripts speaking \<and>
   trace (receive (clock_reading 11 None) interrupted_msg speaking) = trace speaking"
proof -
  have d: "dispatch (gemini speaking) interrupted_msg = [Interrupted]"
    by (simp add: dispatch_single speaking_state)
  from interrupted_effect [OF d, of "clock_reading 11 None"] d speaking_state(2)
  show ?thesis by (simp add: clock_reading_def)
qed

text \<open>The amended C3 at the state \<open>speaking\<close>.\<close>

theorem interrupted_keeps_entry_witness:
  "dispatch (gemini speaking) interrupted_msg = [Interrupted] \<and>
   transcripts speaking \<noteq> [] \<and>
   role (last (transcripts speaking)) = Assistant \<and>
   isPartial (last (transcripts speaking)) = Some True \<and>
   currentOutputTranscription (gemini speaking) \<noteq> [] \<and>
   transcripts (receive (clock_reading 11 None) interrupted_msg speaking) = transcripts speaking \<and>
   finalized_assistant (transcripts (receive (clock_reading 12 None) turnComplete_msg
     (receive (clock_reading 11 None) interrupted_msg speaking))) = []"
proof -
  have d: "dispatch (gemini speaking) interrupted_msg = [Interrupted]"
    by (simp add: dispatch_single speaking_state)
  have h: "transcripts speaking \<noteq> []" "role (last (transcripts speaking)) = Assistant"
    "isPartial (last (transcripts speaking)) = Some True"
    "currentOutputTranscription (gemini speaking) \<noteq> []"
    by (simp_all add: speaking_state str_def)
  have f: "finalized_assistant (transcripts speaking) = []"
    by (simp add: speaking_state finalized_assistant_def)
  from interrupted_keeps_entry [OF d h, of "clock_reading 11 None" "clock_reading 12 None"] d h f
  show ?thesis by simp
qed

text \<open>
  C3 as stated fails: after the Interrupted event the partial assistant entry is still the
  last entry of the transcript list.
\<close>

theorem interrupted_retracts_counterexample:
  "role (last (transcripts speaking)) = Assistant \<and>
   isPartial (last (transcripts speaking)) = Some True \<and>
   currentOutputTranscription (gemini speaking) = str ''I think we should'' \<and>
   transcripts (receive (clock_reading 11 None) interrupted_msg speaking) =
     [\<lparr>role = User, text_item = str ''Wait'', timestamp = 1000, isPartial = Some True\<rparr>,
      \<lparr>role = Assistant, text_item = str ''I think we should'', timestamp = 1000,
       isPartial = Some True\<rparr>]"
proof -
  have d: "dispatch (gemini speaking) interrupted_msg = [Interrupted]"
    by (simp add: dispatch_single speaking_state)
  show ?thesis
    by (simp add: receive_interrupted [OF d] speaking_state)
qed

section \<open>Merging and finalizing transcript entries\<close>

lemma trim_Hello: "trim (str ''Hello'') \<noteq> []" "trim (str ''Hi'') \<noteq> []"
  by (simp_all add: trim_def str_def isWhiteSpace_def)

text \<open>
  C5. From an empty transcript list, the assistant deltas "Hel" and "lo" give one partial
  entry with the text "Hello"; a turn complete then makes that entry final with the same
  text and empties the assistant's buffer; a further assistant delta \<open>t\<close> adds a second,
  partial entry whose text is \<open>t\<close> alone.
\<close>

theorem merge_then_finalize:
  "transcripts (run [(r1, output_msg (str ''Hel'')), (r2, output_msg (str ''lo''))]
       (call_start t0 s0)) =
     [\<lparr>role = Assistant, text_item = str ''Hello'', timestamp = newDate r2 0,
       isPartial = Some True\<rparr>] \<and>
   transcripts (run [(r1, output_msg (str ''Hel'')), (r2, output_msg (str ''lo'')),
       (r3, turnComplete_msg)] (call_start t0 s0)) =
     [\<lparr>role = Assistant, text_item = str ''Hello'', timestamp = newDate r3 0,
       isPartial = Some False\<rparr>] \<and>
   currentOutputTranscription (gemini (run [(r1, output_msg (str ''Hel'')),
       (r2, output_msg (str ''lo'')), (r3, turnComplete_msg)] (call_start t0 s0))) = [] \<and>
   transcripts (run [(r1, output_msg (str ''Hel'')), (r2, output_msg (str ''lo'')),
       (r3, turnComplete_msg), (r4, output_msg t)] (call_start t0 s0)) =
     [\<lparr>role = Assistant, text_item = str ''Hello'', timestamp = newDate r3 0,
       isPartial = Some False\<rparr>,
      \<lparr>role = Assistant, text_item = t, timestamp = newDate r4 0, isPartial = Some True\<rparr>]"
proof -
  have hello: "str ''Hel'' @ str ''lo'' = str ''Hello''"
    by (simp add: str_def)
  show ?thesis
    by (simp add: receive_output receive_input receive_turnComplete call_start_state
        transcriptCallback_def last_matches_def role_of_def finalizeInput_def finalizeOutput_def
        trim_empty trim_Hello hello)
qed

text \<open>
  C7 (amended). From an empty transcript list, the user delta "Hi" and then the assistant delta
  "Hello" give two partial entries, one per role. A further assistant delta rewrites the
  text of the assistant's entry only. A further user delta changes neither entry: it
  adds a third, partial user entry with the merged text.
\<close>

theorem role_switch:
  "transcripts (run [(r1, input_msg (str ''Hi'')), (r2, output_msg (str ''Hello''))]
       (call_start t0 s0)) =
     [\<lparr>role = User, text_item = str ''Hi'', timestamp = newDate r1 0, isPartial = Some True\<rparr>,
      \<lparr>role = Assistant, text_item = str ''Hello'', timestamp = newDate r2 0,
       isPartial = Some True\<rparr>] \<and>
   transcripts (run [(r1, input_msg (str ''Hi'')), (r2, output_msg (str ''Hello'')),
       (r3, output_msg t)] (call_start t0 s0)) =
     [\<lparr>role = User, text_item = str ''Hi'', timestamp = newDate r1 0, isPartial = Some True\<rparr>,
      \<lparr>role = Assistant, text_item = str ''Hello'' @ t, timestamp = newDate r3 0,
       isPartial = Some True\<rparr>] \<and>
   transcripts (run [(r1, input_msg (str ''Hi'')), (r2, output_msg (str ''Hello'')),
       (r3, input_msg t)] (call_start t0 s0)) =
     [\<lparr>role = User, text_item = str ''Hi'', timestamp = newDate r1 0, isPartial = Some True\<rparr>,
      \<lparr>role = Assistant, text_item = str ''Hello'', timestamp = newDate r2 0,
       isPartial = Some True\<rparr>,
      \<lparr>role = User, text_item = str ''Hi'' @ t, timestamp = newDate r3 0,
       isPartial = Some True\<rparr>]"
  by (simp add: receive_output receive_input call_start_state
      transcriptCallback_def last_matches_def role_of_def)

text \<open>
  C7 as stated fails: a further user delta "!" does not update the user's entry, which
  still reads "Hi"; the list has three entries.
\<close>

theorem role_switch_counterexample:
  "transcripts (run [(clock_reading 9 None, input_msg (str ''Hi'')),
       (clock_reading 10 None, output_msg (str ''Hello'')),
       (clock_reading 11 None, input_msg (str ''!''))] (call_start 9 module_init)) =
     [\<lparr>role = User, text_item = str ''Hi'', timestamp = 1000, isPartial = Some True\<rparr>,
      \<lparr>role = Assistant, text_item = str ''Hello'', timestamp = 1000, isPartial = Some True\<rparr>,
      \<lparr>role = User, text_item = str ''Hi!'', timestamp = 1000, isPartial = Some True\<rparr>]"
  by (simp add: receive_output receive_input call_start_state
      transcriptCallback_def last_matches_def role_of_def clock_reading_def str_def)

text \<open>
  C6 as stated fails: after a user delta, an assistant delta and a turn complete, the list
  holds two partial entries, neither of them last, followed by their finalized copies.
\<close>

theorem single_partial_counterexample:
  "transcripts (run [(clock_reading 9 None, input_msg (str ''Hi'')),
       (clock_reading 10 None, output_msg (str ''Hello'')),
       (clock_reading 11 None, turnComplete_msg)] (call_start 9 module_init)) =
     [\<lparr>role = User, text_item = str ''Hi'', timestamp = 1000, isPartial = Some True\<rparr>,
      \<lparr>role = Assistant, text_item = str ''Hello'', timestamp = 1000, isPartial = Some True\<rparr>,
      \<lparr>role = User, text_item = str ''Hi'', timestamp = 1000, isPartial = Some False\<rparr>,
      \<lparr>role = Assistant, text_item = str ''Hello'', timestamp = 1001, isPartial = Some False\<rparr>]"
  by (simp add: receive_output receive_input receive_turnComplete call_start_state
      transcriptCallback_def last_matches_def role_of_def clock_reading_def
      finalizeInput_def finalizeOutput_def trim_Hello)

section \<open>Entries that no later event changes\<close>

lemma extends_refl: "extends_transcript T T"
  by (simp add: extends_transcript_def)

lemma extends_trans:
  assumes "extends_transcript T T'" and "extends_transcript T' T''"
  shows "extends_transcript T T''"
  unfolding extends_transcript_def
proof (intro conjI allI impI)
  show "length T \<le> length T''"
    using assms by (simp add: extends_transcript_def)
next
  fix i assume i: "i < length T"
  with assms(1) have i': "i < length T'" by (simp add: extends_transcript_def)
  from assms(1) i have a: "role (T' ! i) = role (T ! i)"
    "Suc i < length T \<or> isPartial (T ! i) \<noteq> Some True \<Longrightarrow> T' ! i = T ! i"
    by (auto simp: extends_transcript_def)
  from assms(2) i' have b: "role (T'' ! i) = role (T' ! i)"
    "Suc i < length T' \<or> isPartial (T' ! i) \<noteq> Some True \<Longrightarrow> T'' ! i = T' ! i"
    by (auto simp: extends_transcript_def)
  from a(1) b(1) show "role (T'' ! i) = role (T ! i)" by simp
  assume f: "Suc i < length T \<or> isPartial (T ! i) \<noteq> Some True"
  from a(2) [OF f] have eq: "T' ! i = T ! i" .
  from f eq assms(1) have "Suc i < length T' \<or> isPartial (T' ! i) \<noteq> Some True"
    by (auto simp: extends_transcript_def)
  from b(2) [OF this] eq show "T'' ! i = T ! i" by simp
qed

lemma extends_append: "extends_transcript T (T @ [x])"
  by (simp add: extends_transcript_def nth_append)

lemma extends_replace_last:
  assumes "T \<noteq> []" and "isPartial (last T) = Some True" and "role x = role (last T)"
  shows "extends_transcript T (T[length T - Suc 0 := x])"
  unfolding extends_transcript_def
proof (intro conjI allI impI)
  show "length T \<le> length (T[length T - Suc 0 := x])" by simp
next
  fix i assume i: "i < length T"
  show "role (T[length T - Suc 0 := x] ! i) = role (T ! i)"
  proof (cases "i = length T - Suc 0")
    case True
    with assms i show ?thesis by (simp add: last_conv_nth)
  next
    case False
    then show ?thesis by simp
  qed
  assume f: "Suc i < length T \<or> isPartial (T ! i) \<noteq> Some True"
  have "i \<noteq> length T - Suc 0"
  proof
    assume e: "i = length T - Suc 0"
    with assms(1,2) have "isPartial (T ! i) = Some True" by (simp add: last_conv_nth)
    with f e assms(1) show False by simp
  qed
  then show "T[length T - Suc 0 := x] ! i = T ! i" by simp
qed

lemma transcriptCallback_extends:
  "extends_transcript T (transcriptCallback now t u f T)"
proof (cases "last_matches T u")
  case False
  then show ?thesis by (simp add: transcriptCallback_def extends_append)
next
  case True
  then have h: "T \<noteq> []" "isPartial (last T) = Some True" "role (last T) = role_of u"
    by (simp_all add: last_matches_def)
  from True h show ?thesis
    by (simp add: transcriptCallback_def extends_replace_last)
qed

lemma setTranscripts_extends: "extends_transcript T (setTranscripts nd k fx T)"
proof (induction nd k fx T rule: setTranscripts.induct)
  case (1 nd k prev)
  then show ?case by (simp add: extends_refl)
next
  case (2 nd k t u f fx prev)
  from extends_trans [OF transcriptCallback_extends "2.IH"] show ?case by simp
qed simp_all

lemma receive_extends: "extends_transcript (transcripts w) (transcripts (receive r m w))"
  by (cases "onmessage r m (gemini w)") (simp add: receive_def setTranscripts_extends)

lemma run_extends: "extends_transcript (transcripts w) (transcripts (run msgs w))"
proof (induction msgs arbitrary: w)
  case Nil
  then show ?case by (simp add: extends_refl)
next
  case (Cons p msgs)
  obtain r m where p: "p = (r, m)" by (cases p) auto
  from extends_trans [OF receive_extends Cons.IH] p show ?case by simp
qed

text \<open>
  C6 (amended). After every sequence of messages no entry has been removed, every entry has
  kept its role, and every entry that was not the last one, or was not partial, is
  unchanged.
\<close>

theorem earlier_entries_immutable:
  assumes "i < length (transcripts w)"
  shows "length (transcripts w) \<le> length (transcripts (run msgs w)) \<and>
     role (transcripts (run msgs w) ! i) = role (transcripts w ! i) \<and>
     (Suc i < length (transcripts w) \<or> isPartial (transcripts w ! i) \<noteq> Some True \<longrightarrow>
        transcripts (run msgs w) ! i = transcripts w ! i)"
  using run_extends [of w msgs] assms by (simp add: extends_transcript_def)

text \<open>The amended C6 at the state \<open>speaking\<close>, for its first entry.\<close>

theorem earlier_entries_immutable_witness:
  "(0::nat) < length (transcripts speaking) \<and>
   Suc 0 < length (transcripts speaking) \<and>
   transcripts (run [(clock_reading 11 None, input_msg (str ''!'')),
                     (clock_reading 12 None, turnComplete_msg)] speaking) ! 0 =
     \<lparr>role = User, text_item = str ''Wait'', timestamp = 1000, isPartial = Some True\<rparr>"
proof -
  have h: "(0::nat) < length (transcripts speaking)" "Suc 0 < length (transcripts speaking)"
    by (simp_all add: speaking_state)
  from earlier_entries_immutable [OF h(1), of "[(clock_reading 11 None, input_msg (str ''!'')),
                     (clock_reading 12 None, turnComplete_msg)]"] h
  show ?thesis by (simp add: speaking_state)
qed

end
